theory Spec2Isabelle
  imports Complex_Main "HOL-Library.AList" "HOL-Library.Word"
begin

section \<open>JavaScript values as the addon sees them\<close>

text \<open>
  The addon (src/memorystore.cpp, the one source binding.gyp compiles) receives
  \<^verbatim>\<open>Napi::Value\<close>s. Primitives are modelled by value, objects by their address in an
  explicit heap, because a mutable key is an object that the caller mutates between calls.

  A number is an IEEE double: not a number, an infinity, negative zero, or a finite value
  (a rational; positive zero is \<open>Finite 0\<close>). \<open>JFunction\<close> is a native function made by
  the key proxy's get trap (its name and the target it is bound to); a function the caller
  made is an object of the heap like any other.
\<close>

type_synonym addr = nat

datatype number = NaN | PosInfinity | NegInfinity | NegZero | Finite rat

datatype jsvalue =
    JUndefined
  | JNull
  | JBoolean bool
  | JNumber number
  | JString string
  | JSymbol nat
  | JBigInt int
  | JObject addr
  | JFunction string addr

text \<open>
  A property is a data property or an accessor; reading an accessor runs the caller's
  getter, which returns a value or throws (\<open>None\<close>). An object is an ordinary object with
  its properties, the \<^verbatim>\<open>Proxy\<close> that \<^verbatim>\<open>CreateMutableKey\<close> builds around a target (its
  handler is the fixed pair of traps of lines 187-231, so the proxy is determined by its
  target), or a proxy of the caller's own, given by what its \<^verbatim>\<open>has\<close> and \<^verbatim>\<open>get\<close> traps
  answer for each property name (a value, or \<open>None\<close> when the trap throws).
\<close>

datatype property = Data jsvalue | Accessor "jsvalue option"

datatype jsobject =
    Plain "(string \<times> property) list"
  | Proxy addr
  | CallerProxy "string \<Rightarrow> bool option" "string \<Rightarrow> jsvalue option"

type_synonym heap = "jsobject list"

definition heap_lookup :: "heap \<Rightarrow> addr \<Rightarrow> jsobject option" where
  "heap_lookup h a = (if a < length h then Some (h ! a) else None)"

fun IsNull :: "jsvalue \<Rightarrow> bool" where
  "IsNull JNull = True"
| "IsNull _ = False"

fun IsUndefined :: "jsvalue \<Rightarrow> bool" where
  "IsUndefined JUndefined = True"
| "IsUndefined _ = False"

fun IsString :: "jsvalue \<Rightarrow> bool" where
  "IsString (JString _) = True"
| "IsString _ = False"

fun IsNumber :: "jsvalue \<Rightarrow> bool" where
  "IsNumber (JNumber _) = True"
| "IsNumber _ = False"

fun IsBoolean :: "jsvalue \<Rightarrow> bool" where
  "IsBoolean (JBoolean _) = True"
| "IsBoolean _ = False"

text \<open>\<^verbatim>\<open>Napi::Value::IsObject\<close> holds of objects and of functions.\<close>

fun IsObject :: "jsvalue \<Rightarrow> bool" where
  "IsObject (JObject _) = True"
| "IsObject (JFunction _ _) = True"
| "IsObject _ = False"

fun Utf8Value :: "jsvalue \<Rightarrow> string" where
  "Utf8Value (JString s) = s"
| "Utf8Value _ = []"

fun BooleanValue :: "jsvalue \<Rightarrow> bool" where
  "BooleanValue (JBoolean b) = b"
| "BooleanValue _ = False"

text \<open>
  \<^verbatim>\<open>Napi::Number::Uint32Value\<close>: a finite number is truncated towards zero and reduced
  modulo \<open>2 ^ 32\<close>; the other numbers give 0.
\<close>

definition truncate_towards_zero :: "rat \<Rightarrow> int" where
  "truncate_towards_zero q = (if q < 0 then - \<lfloor>- q\<rfloor> else \<lfloor>q\<rfloor>)"

fun Uint32Value :: "jsvalue \<Rightarrow> 32 word" where
  "Uint32Value (JNumber (Finite q)) = word_of_int (truncate_towards_zero q)"
| "Uint32Value _ = 0"

subsection \<open>Pending exceptions\<close>

text \<open>
  binding.gyp defines \<^verbatim>\<open>NAPI_DISABLE_CPP_EXCEPTIONS\<close>. A Node-API call that fails then
  throws no C++ exception: the wrapper leaves a JavaScript exception pending, returns an
  empty value, and the C++ code runs on. When the method returns, a pending exception is
  what the caller gets instead of the returned value. The first pending exception stays:
  while one is pending, the calls that run JavaScript (reading or testing a property,
  calling a function, storing an array element) fail at once and change nothing.
\<close>

datatype error = TypeError string | InvalidArgument | JsException

type_synonym pending = "error option"

definition callback_return :: "pending \<Rightarrow> 'a \<Rightarrow> error + 'a" where
  "callback_return pend r = (case pend of None \<Rightarrow> Inr r | Some e \<Rightarrow> Inl e)"

subsection \<open>Property access, and the traps of the key proxy\<close>

text \<open>Testing, reading and writing a property of an ordinary object.\<close>

definition plain_Has :: "(string \<times> property) list \<Rightarrow> string \<Rightarrow> bool" where
  "plain_Has ps prop = (map_of ps prop \<noteq> None)"

definition plain_Get :: "(string \<times> property) list \<Rightarrow> string \<Rightarrow> jsvalue option" where
  "plain_Get ps prop =
     (case map_of ps prop of
        None \<Rightarrow> Some JUndefined
      | Some (Data v) \<Rightarrow> Some v
      | Some (Accessor r) \<Rightarrow> r)"

definition target_Get :: "heap \<Rightarrow> addr \<Rightarrow> string \<Rightarrow> jsvalue option" where
  "target_Get h a prop =
     (case heap_lookup h a of
        Some (Plain ps) \<Rightarrow> plain_Get ps prop
      | _ \<Rightarrow> Some JUndefined)"

definition target_Has :: "heap \<Rightarrow> addr \<Rightarrow> string \<Rightarrow> bool" where
  "target_Has h a prop =
     (case heap_lookup h a of
        Some (Plain ps) \<Rightarrow> plain_Has ps prop
      | _ \<Rightarrow> False)"

text \<open>Writing a data property stores the value; an accessor's setter is the caller's.\<close>

definition target_Set :: "heap \<Rightarrow> addr \<Rightarrow> string \<Rightarrow> jsvalue \<Rightarrow> heap" where
  "target_Set h a prop v =
     (case heap_lookup h a of
        Some (Plain ps) \<Rightarrow>
          (case map_of ps prop of
             Some (Accessor r) \<Rightarrow> h
           | _ \<Rightarrow> h[a := Plain (AList.update prop (Data v) ps)])
      | _ \<Rightarrow> h)"

text \<open>
  The get trap (\<^verbatim>\<open>getFunction\<close>, lines 187-211): \<^verbatim>\<open>toString\<close> and \<^verbatim>\<open>valueOf\<close> give
  fresh native functions, and every other property name, \<^verbatim>\<open>__keyId\<close> included, gives
  the target's \<^verbatim>\<open>value\<close>.
\<close>

definition getFunction :: "heap \<Rightarrow> addr \<Rightarrow> string \<Rightarrow> jsvalue option" where
  "getFunction h target prop =
     (if prop = ''toString'' then Some (JFunction ''toString'' target)
      else if prop = ''valueOf'' then Some (JFunction ''valueOf'' target)
      else target_Get h target ''value'')"

text \<open>
  The set trap (\<^verbatim>\<open>setFunction\<close>, lines 213-228): whatever property is assigned, the
  target's \<^verbatim>\<open>value\<close> is replaced; neither the key wrapper nor the store is touched.
\<close>

definition setFunction :: "heap \<Rightarrow> addr \<Rightarrow> string \<Rightarrow> jsvalue \<Rightarrow> heap" where
  "setFunction h target prop newValue = target_Set h target ''value'' newValue"

text \<open>
  What JavaScript answers when a property is tested or read. Reading a property of a
  proxy calls the handler's get trap with the target and the property name, whatever the
  name; the key proxy's handler has no \<^verbatim>\<open>has\<close> trap, so the test asks the target.
\<close>

definition js_Has :: "heap \<Rightarrow> jsvalue \<Rightarrow> string \<Rightarrow> bool option" where
  "js_Has h obj prop =
     (case obj of
        JObject a \<Rightarrow>
          (case heap_lookup h a of
             Some (Plain ps) \<Rightarrow> Some (plain_Has ps prop)
           | Some (Proxy t) \<Rightarrow> Some (target_Has h t prop)
           | Some (CallerProxy has_trap get_trap) \<Rightarrow> has_trap prop
           | None \<Rightarrow> Some False)
      | _ \<Rightarrow> Some False)"

definition js_Get :: "heap \<Rightarrow> jsvalue \<Rightarrow> string \<Rightarrow> jsvalue option" where
  "js_Get h obj prop =
     (case obj of
        JObject a \<Rightarrow>
          (case heap_lookup h a of
             Some (Plain ps) \<Rightarrow> plain_Get ps prop
           | Some (Proxy t) \<Rightarrow> getFunction h t prop
           | Some (CallerProxy has_trap get_trap) \<Rightarrow> get_trap prop
           | None \<Rightarrow> Some JUndefined)
      | _ \<Rightarrow> Some JUndefined)"

text \<open>
  \<^verbatim>\<open>Napi::Object::Has\<close> and \<^verbatim>\<open>Napi::Object::Get\<close>, with the exception pending before and
  after. A failed \<^verbatim>\<open>Has\<close> answers false; a failed \<^verbatim>\<open>Get\<close> returns the empty value, which
  every type test takes for \<^verbatim>\<open>undefined\<close>. In particular \<^verbatim>\<open>keyObj.Get("__keyId")\<close> on a
  key proxy is the proxy's current value, not the id stored in the target.
\<close>

definition Object_Has :: "pending \<Rightarrow> heap \<Rightarrow> jsvalue \<Rightarrow> string \<Rightarrow> bool \<times> pending" where
  "Object_Has pend h obj prop =
     (case pend of
        Some e \<Rightarrow> (False, pend)
      | None \<Rightarrow>
          (case js_Has h obj prop of
             Some b \<Rightarrow> (b, None)
           | None \<Rightarrow> (False, Some JsException)))"

definition Object_Get :: "pending \<Rightarrow> heap \<Rightarrow> jsvalue \<Rightarrow> string \<Rightarrow> jsvalue \<times> pending" where
  "Object_Get pend h obj prop =
     (case pend of
        Some e \<Rightarrow> (JUndefined, pend)
      | None \<Rightarrow>
          (case js_Get h obj prop of
             Some v \<Rightarrow> (v, None)
           | None \<Rightarrow> (JUndefined, Some JsException)))"

text \<open>
  The idiom \<^verbatim>\<open>obj.Has(p) && obj.Get(p).IsT()\<close> of the source: the property is read only
  when the test succeeded.
\<close>

definition Has_and_Is :: "(jsvalue \<Rightarrow> bool) \<Rightarrow> pending \<Rightarrow> heap \<Rightarrow> jsvalue \<Rightarrow> string
    \<Rightarrow> bool \<times> pending" where
  "Has_and_Is IsT pend h obj prop =
     (let (b, p1) = Object_Has pend h obj prop
      in if b then (let (v, p2) = Object_Get p1 h obj prop in (IsT v, p2))
         else (False, p1))"

text \<open>The caller's assignment \<^verbatim>\<open>obj.prop = v\<close>; on a key proxy it runs the set trap.\<close>

definition Object_Set :: "heap \<Rightarrow> jsvalue \<Rightarrow> string \<Rightarrow> jsvalue \<Rightarrow> heap" where
  "Object_Set h obj prop v =
     (case obj of
        JObject a \<Rightarrow>
          (case heap_lookup h a of
             Some (Proxy t) \<Rightarrow> setFunction h t prop v
           | Some (CallerProxy has_trap get_trap) \<Rightarrow> h
           | _ \<Rightarrow> target_Set h a prop v)
      | _ \<Rightarrow> h)"

subsection \<open>References\<close>

text \<open>
  \<^verbatim>\<open>Napi::Persistent\<close> makes a reference. The addon is built for the default Node-API
  version, where only an object, a function or a symbol can be referenced: for any other
  value the call fails with \<^verbatim>\<open>Invalid argument\<close> and the reference stays empty.
  \<^verbatim>\<open>Reference::Value\<close> of an empty reference is the empty value.
\<close>

fun referenceable :: "jsvalue \<Rightarrow> bool" where
  "referenceable (JObject _) = True"
| "referenceable (JFunction _ _) = True"
| "referenceable (JSymbol _) = True"
| "referenceable _ = False"

definition Reference_New :: "jsvalue \<Rightarrow> jsvalue option" where
  "Reference_New v = (if referenceable v then Some v else None)"

definition Persistent :: "pending \<Rightarrow> jsvalue \<Rightarrow> jsvalue option \<times> pending" where
  "Persistent pend v =
     (if referenceable v then (Some v, pend)
      else (None, case pend of None \<Rightarrow> Some InvalidArgument | Some e \<Rightarrow> Some e))"

text \<open>An empty value handed back to JavaScript arrives as \<^verbatim>\<open>undefined\<close>.\<close>

definition to_js :: "jsvalue option \<Rightarrow> jsvalue" where
  "to_js r = (case r of Some v \<Rightarrow> v | None \<Rightarrow> JUndefined)"

subsection \<open>Printing numbers\<close>

text \<open>
  \<^verbatim>\<open>std::to_string\<close> on an integer prints its decimal digits. On a double it prints with
  \<^verbatim>\<open>%f\<close>: the sign, the integer part and six decimals of the value rounded to the
  nearest millionth (to even on a tie), and \<^verbatim>\<open>nan\<close>, \<^verbatim>\<open>inf\<close> or \<^verbatim>\<open>-inf\<close> otherwise.
\<close>

definition digit_char :: "nat \<Rightarrow> char" where
  "digit_char d = char_of (48 + d)"

fun nat_digits :: "nat \<Rightarrow> string" where
  "nat_digits n =
     (if n < 10 then [digit_char n] else nat_digits (n div 10) @ [digit_char (n mod 10)])"

declare nat_digits.simps [simp del]

definition to_string :: "int \<Rightarrow> string" where
  "to_string n = (if n < 0 then CHR ''-'' # nat_digits (nat (- n)) else nat_digits (nat n))"

definition round_half_even :: "rat \<Rightarrow> int" where
  "round_half_even q =
     (let f = \<lfloor>q\<rfloor>; r = q - of_int f
      in if r < 1 / 2 then f else if 1 / 2 < r then f + 1 else if even f then f else f + 1)"

definition fixed6 :: "rat \<Rightarrow> string" where
  "fixed6 q =
     (let m = nat (round_half_even (q * 1000000));
          decimals = nat_digits (m mod 1000000)
      in nat_digits (m div 1000000) @ ''.'' @ replicate (6 - length decimals) CHR ''0'' @ decimals)"

fun to_string_double :: "number \<Rightarrow> string" where
  "to_string_double NaN = ''nan''"
| "to_string_double PosInfinity = ''inf''"
| "to_string_double NegInfinity = ''-inf''"
| "to_string_double NegZero = ''-0.000000''"
| "to_string_double (Finite q) = (if q < 0 then CHR ''-'' # fixed6 (- q) else fixed6 q)"

section \<open>The key resolver\<close>

text \<open>
  \<^verbatim>\<open>JSON.stringify\<close> belongs to the host; it is a parameter. It is applied to the heap
  and the value, and either returns a value (a string, or \<^verbatim>\<open>undefined\<close> for what JSON
  cannot express) or throws, which is \<open>None\<close>.
\<close>

type_synonym stringify = "heap \<Rightarrow> jsvalue \<Rightarrow> jsvalue option"

text \<open>
  \<^verbatim>\<open>SafeGetString\<close> (lines 33-76). With C++ exceptions disabled nothing reaches the
  \<^verbatim>\<open>catch\<close> of lines 72-75: when \<^verbatim>\<open>JSON.stringify\<close> throws, its result is the empty
  value, which is no string, so the placeholder is returned and the exception stays
  pending. When an exception is pending already, looking up and calling
  \<^verbatim>\<open>JSON.stringify\<close> fails at once, with the same outcome.
\<close>

definition SafeGetString :: "pending \<Rightarrow> stringify \<Rightarrow> heap \<Rightarrow> jsvalue \<Rightarrow> string \<times> pending" where
  "SafeGetString pend js h v =
     (if IsNull v \<or> IsUndefined v then ([], pend)
      else if IsString v then (Utf8Value v, pend)
      else if IsNumber v then ((case v of JNumber n \<Rightarrow> to_string_double n | _ \<Rightarrow> []), pend)
      else if IsBoolean v then ((if BooleanValue v then ''true'' else ''false''), pend)
      else
        let (b, p1) = (if IsObject v then Has_and_Is IsString pend h v ''__keyId''
                       else (False, pend))
        in if b then (Utf8Value (fst (Object_Get p1 h v ''__keyId'')),
                      snd (Object_Get p1 h v ''__keyId''))
           else (case p1 of
                   Some e \<Rightarrow> (''[object Object]'', p1)
                 | None \<Rightarrow>
                     (case js h v of
                        None \<Rightarrow> (''[object Object]'', Some JsException)
                      | Some result \<Rightarrow>
                          if IsString result then (Utf8Value result, None)
                          else (''[object Object]'', None))))"

section \<open>The store\<close>

type_synonym time_point = int

text \<open>
  \<^verbatim>\<open>steady_clock::time_point\<close> counts nanoseconds in a signed 64-bit integer;
  \<^verbatim>\<open>time_point::max()\<close> is the "never" deadline. Adding \<^verbatim>\<open>milliseconds(m)\<close> adds
  \<open>1000000 * m\<close> ticks. A clock reading is at most the maximum and the age limit is below
  \<open>2 ^ 32\<close> milliseconds, so the sum passes the maximum at most once, and then wraps
  around to the negative readings.
\<close>

definition time_point_max :: time_point where
  "time_point_max = 9223372036854775807"

definition milliseconds :: "64 word \<Rightarrow> int" where
  "milliseconds m = 1000000 * uint m"

definition wrap_time_point :: "int \<Rightarrow> time_point" where
  "wrap_time_point x = (if time_point_max < x then x - 2 ^ 64 else x)"

text \<open>The two references of an item are empty (\<open>None\<close>) or hold a value.\<close>

record StoreItem =
  itemValue :: "jsvalue option"
  keyRef :: "jsvalue option"
  isPermanent :: bool
  expiresAt :: time_point
  maxAgeMs :: "64 word"

record KeyWrapper =
  keyString :: string
  proxyRef :: "jsvalue option"

text \<open>
  The two \<^verbatim>\<open>unordered_map\<close>s are association lists whose keys stay distinct:
  \<^verbatim>\<open>insert_or_assign\<close> and \<^verbatim>\<open>operator[]=\<close> are \<open>AList.update\<close>, \<^verbatim>\<open>find\<close> is \<open>map_of\<close>,
  \<^verbatim>\<open>erase\<close> is \<open>AList.delete\<close>. \<open>cleanupThread\<close> says whether a worker thread is attached.
\<close>

record MemoryStore =
  store :: "(string \<times> StoreItem) list"
  keyWrappers :: "(string \<times> KeyWrapper) list"
  stopCleanup :: bool
  cleanupIntervalMs :: "64 word"
  cleanupThread :: bool

text \<open>
  The constructor (lines 127-138): the fields it leaves, and the exception pending when it
  returns (with one pending, \<^verbatim>\<open>new\<close> throws and the caller has no store).
\<close>

definition MemoryStore_new :: "heap \<Rightarrow> jsvalue list \<Rightarrow> MemoryStore" where
  "MemoryStore_new h info =
     \<lparr> store = [], keyWrappers = [], stopCleanup = True,
       cleanupIntervalMs =
         (if length info > 0 \<and> IsObject (info ! 0)
             \<and> fst (Has_and_Is IsNumber None h (info ! 0) ''cleanupInterval'')
          then ucast (Uint32Value (fst (Object_Get None h (info ! 0) ''cleanupInterval'')))
          else 60000),
       cleanupThread = False \<rparr>"

definition MemoryStore_new_pending :: "heap \<Rightarrow> jsvalue list \<Rightarrow> pending" where
  "MemoryStore_new_pending h info =
     (if length info > 0 \<and> IsObject (info ! 0)
      then snd (Has_and_Is IsNumber None h (info ! 0) ''cleanupInterval'')
      else None)"

subsection \<open>set\<close>

text \<open>
  The options of \<^verbatim>\<open>Set\<close> (lines 254-267): permanent and no age limit unless given. The
  age limit is read after the permanence, under whatever exception that left pending.
\<close>

definition Set_isPermanent :: "heap \<Rightarrow> jsvalue list \<Rightarrow> bool \<times> pending" where
  "Set_isPermanent h info =
     (if length info \<ge> 3 \<and> IsObject (info ! 2) then
        (let (b, p1) = Has_and_Is IsBoolean None h (info ! 2) ''isPermanent''
         in if b then (BooleanValue (fst (Object_Get p1 h (info ! 2) ''isPermanent'')),
                       snd (Object_Get p1 h (info ! 2) ''isPermanent''))
            else (True, p1))
      else (True, None))"

definition Set_maxAgeMs :: "heap \<Rightarrow> jsvalue list \<Rightarrow> 64 word \<times> pending" where
  "Set_maxAgeMs h info =
     (if length info \<ge> 3 \<and> IsObject (info ! 2) then
        (let p0 = snd (Set_isPermanent h info);
             (b, p1) = Has_and_Is IsNumber p0 h (info ! 2) ''maxAgeMs''
         in if b then (ucast (Uint32Value (fst (Object_Get p1 h (info ! 2) ''maxAgeMs''))),
                       snd (Object_Get p1 h (info ! 2) ''maxAgeMs''))
            else (0, p1))
      else (0, None))"

text \<open>
  The key of \<^verbatim>\<open>Set\<close> (lines 269-295). Both branches of the lookup in \<^verbatim>\<open>keyWrappers\<close>
  take what reading \<^verbatim>\<open>__keyId\<close> returned.
\<close>

definition Set_keyString :: "pending \<Rightarrow> stringify \<Rightarrow> heap \<Rightarrow> MemoryStore \<Rightarrow> jsvalue
    \<Rightarrow> string \<times> pending" where
  "Set_keyString pend js h st keyValue =
     (if IsObject keyValue \<and> \<not> IsString keyValue then
        (let (b, p1) = Has_and_Is IsString pend h keyValue ''__keyId''
         in if b then
              (let keyId = Utf8Value (fst (Object_Get p1 h keyValue ''__keyId''))
               in (case map_of (keyWrappers st) keyId of
                     Some w \<Rightarrow> keyId
                   | None \<Rightarrow> keyId,
                   snd (Object_Get p1 h keyValue ''__keyId'')))
            else SafeGetString p1 js h keyValue)
      else SafeGetString pend js h keyValue)"

text \<open>The deadline of a new item (lines 303-307).\<close>

definition Set_expiresAt :: "time_point \<Rightarrow> bool \<Rightarrow> 64 word \<Rightarrow> time_point" where
  "Set_expiresAt now perm age =
     (if \<not> perm \<and> age > 0 then wrap_time_point (now + milliseconds age) else time_point_max)"

text \<open>
  \<^verbatim>\<open>Set\<close> (lines 243-315). The item is inserted whatever is pending; the exception, if
  any, reaches the caller in place of \<^verbatim>\<open>true\<close>.
\<close>

definition Set :: "stringify \<Rightarrow> heap \<Rightarrow> time_point \<Rightarrow> MemoryStore \<Rightarrow> jsvalue list
    \<Rightarrow> MemoryStore \<times> (error + jsvalue)" where
  "Set js h now st info =
     (if length info < 2 then (st, Inl (TypeError ''Wrong number of arguments''))
      else
        let keyValue = info ! 0;
            v = info ! 1;
            perm = fst (Set_isPermanent h info);
            (age, p2) = Set_maxAgeMs h info;
            (k, p3) = Set_keyString p2 js h st keyValue;
            (valueReference, p4) = Persistent p3 v;
            (keyReference, p5) = Persistent p4 keyValue;
            item = \<lparr> itemValue = valueReference, keyRef = keyReference, isPermanent = perm,
                     expiresAt = Set_expiresAt now perm age, maxAgeMs = age \<rparr>
        in (st\<lparr>store := AList.update k item (store st)\<rparr>, callback_return p5 (JBoolean True)))"

subsection \<open>get, has, delete\<close>

text \<open>
  The key of \<^verbatim>\<open>Get\<close> (lines 327-341); \<^verbatim>\<open>Has\<close> (lines 371-385) and \<^verbatim>\<open>Delete\<close>
  (lines 415-429) repeat the same text.
\<close>

definition Get_keyString :: "stringify \<Rightarrow> heap \<Rightarrow> jsvalue \<Rightarrow> string \<times> pending" where
  "Get_keyString js h keyValue =
     (if IsObject keyValue \<and> \<not> IsString keyValue then
        (let (b, p1) = Has_and_Is IsString None h keyValue ''__keyId''
         in if b then (Utf8Value (fst (Object_Get p1 h keyValue ''__keyId'')),
                       snd (Object_Get p1 h keyValue ''__keyId''))
            else SafeGetString p1 js h keyValue)
      else SafeGetString None js h keyValue)"

text \<open>The expiry test of \<^verbatim>\<open>Get\<close>, \<^verbatim>\<open>Has\<close> and the sweep.\<close>

definition expired :: "time_point \<Rightarrow> StoreItem \<Rightarrow> bool" where
  "expired now it = (\<not> isPermanent it \<and> maxAgeMs it > 0 \<and> now \<ge> expiresAt it)"

definition Get :: "stringify \<Rightarrow> heap \<Rightarrow> time_point \<Rightarrow> MemoryStore \<Rightarrow> jsvalue list
    \<Rightarrow> MemoryStore \<times> (error + jsvalue)" where
  "Get js h now st info =
     (if length info < 1 then (st, Inl (TypeError ''Key is required''))
      else
        let (k, pend) = Get_keyString js h (info ! 0)
        in case map_of (store st) k of
             Some it \<Rightarrow>
               if expired now it
               then (st\<lparr>store := AList.delete k (store st)\<rparr>, callback_return pend JUndefined)
               else (st, callback_return pend (to_js (itemValue it)))
           | None \<Rightarrow> (st, callback_return pend JUndefined))"

definition Has :: "stringify \<Rightarrow> heap \<Rightarrow> time_point \<Rightarrow> MemoryStore \<Rightarrow> jsvalue list
    \<Rightarrow> MemoryStore \<times> (error + jsvalue)" where
  "Has js h now st info =
     (if length info < 1 then (st, Inl (TypeError ''Key is required''))
      else
        let (k, pend) = Get_keyString js h (info ! 0)
        in case map_of (store st) k of
             Some it \<Rightarrow>
               if expired now it
               then (st\<lparr>store := AList.delete k (store st)\<rparr>,
                     callback_return pend (JBoolean False))
               else (st, callback_return pend (JBoolean True))
           | None \<Rightarrow> (st, callback_return pend (JBoolean False)))"

definition Delete :: "stringify \<Rightarrow> heap \<Rightarrow> MemoryStore \<Rightarrow> jsvalue list
    \<Rightarrow> MemoryStore \<times> (error + jsvalue)" where
  "Delete js h st info =
     (if length info < 1 then (st, Inl (TypeError ''Key is required''))
      else
        let (k, pend) = Get_keyString js h (info ! 0)
        in case map_of (store st) k of
             Some it \<Rightarrow> (st\<lparr>store := AList.delete k (store st)\<rparr>,
                        callback_return pend (JBoolean True))
           | None \<Rightarrow> (st, callback_return pend (JBoolean False)))"

subsection \<open>clear, size\<close>

definition Clear :: "MemoryStore \<Rightarrow> MemoryStore \<times> jsvalue" where
  "Clear st = (st\<lparr>store := []\<rparr>, JBoolean True)"

text \<open>\<^verbatim>\<open>Size\<close> (lines 451-456) casts the table's size to \<^verbatim>\<open>uint32_t\<close>.\<close>

definition Size :: "MemoryStore \<Rightarrow> MemoryStore \<times> jsvalue" where
  "Size st = (st, JNumber (Finite (of_int (uint (word_of_nat (length (store st)) :: 32 word)))))"

subsection \<open>The sweeper\<close>

text \<open>
  \<^verbatim>\<open>StartCleanupTask\<close> (lines 546-566) stores a numeric argument as the interval before it
  looks at \<^verbatim>\<open>stopCleanup\<close>. \<^verbatim>\<open>StopCleanupTask\<close> (lines 568-583) joins the worker.
\<close>

definition StartCleanupTask :: "MemoryStore \<Rightarrow> jsvalue list \<Rightarrow> MemoryStore \<times> jsvalue" where
  "StartCleanupTask st info =
     (let st1 = (if length info > 0 \<and> IsNumber (info ! 0)
                 then st\<lparr>cleanupIntervalMs := ucast (Uint32Value (info ! 0))\<rparr> else st)
      in if \<not> stopCleanup st1 then (st1, JBoolean False)
         else (st1\<lparr>stopCleanup := False, cleanupThread := True\<rparr>, JBoolean True))"

definition StopCleanupTask :: "MemoryStore \<Rightarrow> MemoryStore \<times> jsvalue" where
  "StopCleanupTask st =
     (if stopCleanup st then (st, JBoolean False)
      else (st\<lparr>stopCleanup := True, cleanupThread := False\<rparr>, JBoolean True))"

text \<open>\<^verbatim>\<open>CleanupExpiredItems\<close> (lines 585-596), one pass of the worker's loop.\<close>

fun erase_expired :: "time_point \<Rightarrow> (string \<times> StoreItem) list \<Rightarrow> (string \<times> StoreItem) list" where
  "erase_expired now [] = []"
| "erase_expired now (pair # rest) =
     (if \<not> isPermanent (snd pair) \<and> maxAgeMs (snd pair) > 0 \<and> now \<ge> expiresAt (snd pair)
      then erase_expired now rest
      else pair # erase_expired now rest)"

definition CleanupExpiredItems :: "time_point \<Rightarrow> MemoryStore \<Rightarrow> MemoryStore" where
  "CleanupExpiredItems now st = st\<lparr>store := erase_expired now (store st)\<rparr>"

subsection \<open>keys, getKeys, all\<close>

text \<open>
  A JavaScript array is the list of its elements. \<^verbatim>\<open>Napi::Array::New(env, n)\<close> has \<open>n\<close>
  empty slots, which read as \<^verbatim>\<open>undefined\<close>; storing past the end extends the array.
  Storing the empty value fails with \<^verbatim>\<open>Invalid argument\<close>, and nothing is stored while
  an exception is pending.
\<close>

definition Array_New :: "nat \<Rightarrow> jsvalue list" where
  "Array_New n = replicate n JUndefined"

definition Array_store :: "jsvalue list \<Rightarrow> nat \<Rightarrow> jsvalue \<Rightarrow> jsvalue list" where
  "Array_store arr i v =
     (if i < length arr then arr[i := v]
      else arr @ replicate (i - length arr) JUndefined @ [v])"

definition Array_Set :: "jsvalue list \<times> pending \<Rightarrow> nat \<Rightarrow> jsvalue option
    \<Rightarrow> jsvalue list \<times> pending" where
  "Array_Set ap i r =
     (case snd ap of
        Some e \<Rightarrow> ap
      | None \<Rightarrow>
          (case r of
             None \<Rightarrow> (fst ap, Some InvalidArgument)
           | Some v \<Rightarrow> (Array_store (fst ap) i v, None)))"

text \<open>The test of the three enumerations: the item has not expired.\<close>

definition valid :: "time_point \<Rightarrow> StoreItem \<Rightarrow> bool" where
  "valid now it = (isPermanent it \<or> maxAgeMs it = 0 \<or> now < expiresAt it)"

text \<open>
  \<^verbatim>\<open>Keys\<close> (lines 458-480): collect the valid keys under the lock, then copy them into an
  array as new strings.
\<close>

fun Keys_collect :: "time_point \<Rightarrow> (string \<times> StoreItem) list \<Rightarrow> string list \<Rightarrow> string list" where
  "Keys_collect now [] validKeys = validKeys"
| "Keys_collect now (pair # rest) validKeys =
     (if valid now (snd pair) then Keys_collect now rest (validKeys @ [fst pair])
      else Keys_collect now rest validKeys)"

definition Keys :: "time_point \<Rightarrow> MemoryStore \<Rightarrow> MemoryStore \<times> jsvalue list" where
  "Keys now st =
     (let validKeys = Keys_collect now (store st) []
      in (st, fold (\<lambda>i keysArray. Array_store keysArray i (JString (validKeys ! i)))
                [0..<length validKeys] (Array_New (length validKeys))))"

text \<open>
  \<^verbatim>\<open>GetKeys\<close> (lines 482-512) and \<^verbatim>\<open>All\<close> (lines 514-544): a first pass counts the valid
  items, a second pass stores the original key, or the value, of each at the next index.
  The two passes take the lock separately, so the worker may sweep in between: \<open>between\<close>
  is the clock reading of such a sweep, if there is one.
\<close>

fun count_valid :: "time_point \<Rightarrow> (string \<times> StoreItem) list \<Rightarrow> nat \<Rightarrow> nat" where
  "count_valid now [] n = n"
| "count_valid now (pair # rest) n =
     (if valid now (snd pair) then count_valid now rest (Suc n) else count_valid now rest n)"

fun populate :: "(StoreItem \<Rightarrow> jsvalue option) \<Rightarrow> time_point \<Rightarrow> (string \<times> StoreItem) list
    \<Rightarrow> jsvalue list \<times> pending \<Rightarrow> nat \<Rightarrow> jsvalue list \<times> pending" where
  "populate field now [] ap index = ap"
| "populate field now (pair # rest) ap index =
     (if valid now (snd pair)
      then populate field now rest (Array_Set ap index (field (snd pair))) (Suc index)
      else populate field now rest ap index)"

definition between_passes :: "time_point option \<Rightarrow> MemoryStore \<Rightarrow> MemoryStore" where
  "between_passes between st =
     (case between of None \<Rightarrow> st | Some t \<Rightarrow> CleanupExpiredItems t st)"

definition GetKeys :: "time_point \<Rightarrow> time_point option \<Rightarrow> MemoryStore
    \<Rightarrow> MemoryStore \<times> (error + jsvalue list)" where
  "GetKeys now between st =
     (let validKeyCount = count_valid now (store st) 0;
          st1 = between_passes between st;
          (keysArray, pend) = populate keyRef now (store st1) (Array_New validKeyCount, None) 0
      in (st1, callback_return pend keysArray))"

definition All :: "time_point \<Rightarrow> time_point option \<Rightarrow> MemoryStore
    \<Rightarrow> MemoryStore \<times> (error + jsvalue list)" where
  "All now between st =
     (let validItemCount = count_valid now (store st) 0;
          st1 = between_passes between st;
          (valuesArray, pend) = populate itemValue now (store st1) (Array_New validItemCount, None) 0
      in (st1, callback_return pend valuesArray))"

subsection \<open>Mutable keys\<close>

text \<open>
  \<^verbatim>\<open>CreateMutableKey\<close> (lines 149-241). The id is \<^verbatim>\<open>key_\<close> followed by the clock's tick
  count. The target object (properties \<^verbatim>\<open>value\<close> and \<^verbatim>\<open>__keyId\<close>) and the proxy are
  allocated at the end of the heap; the wrapper is registered under the id and keeps a
  reference to the proxy.
\<close>

definition uniqueId :: "time_point \<Rightarrow> string" where
  "uniqueId now = ''key_'' @ to_string now"

definition CreateMutableKey :: "heap \<Rightarrow> time_point \<Rightarrow> MemoryStore \<Rightarrow> jsvalue list
    \<Rightarrow> heap \<times> MemoryStore \<times> (error + jsvalue)" where
  "CreateMutableKey h now st info =
     (if length info < 1 then (h, st, Inl (TypeError ''Initial value required''))
      else
        let initialValue = info ! 0;
            target = length h;
            proxyObject = JObject (Suc (length h));
            keyWrapper = \<lparr> keyString = uniqueId now, proxyRef = Some proxyObject \<rparr>
        in (h @ [Plain [(''value'', Data initialValue),
                        (''__keyId'', Data (JString (uniqueId now)))],
                 Proxy target],
            st\<lparr>keyWrappers := AList.update (uniqueId now) keyWrapper (keyWrappers st)\<rparr>,
            Inr proxyObject))"

section \<open>Runs of the program\<close>

text \<open>
  What can happen to a store and the heap it shares with its caller: a call of one of the
  methods, a pass of the worker thread, and the caller's own code between two calls: an
  allocation, an assignment (among them rebinding a mutable key), or anything else, given
  by the heap it leaves. Each event comes with the clock's reading.
\<close>

datatype event =
    CallSet "jsvalue list"
  | CallGet "jsvalue list"
  | CallHas "jsvalue list"
  | CallDelete "jsvalue list"
  | CallClear
  | CallSize
  | CallKeys
  | CallGetKeys "time_point option"
  | CallAll "time_point option"
  | CallStartCleanupTask "jsvalue list"
  | CallStopCleanupTask
  | CallCreateMutableKey "jsvalue list"
  | WorkerSweep
  | JsNewObject "(string \<times> property) list"
  | JsAssign jsvalue string jsvalue
  | JsCode heap

fun step :: "stringify \<Rightarrow> heap \<times> MemoryStore \<Rightarrow> time_point \<times> event \<Rightarrow> heap \<times> MemoryStore" where
  "step js (h, st) (now, CallSet info) = (h, fst (Set js h now st info))"
| "step js (h, st) (now, CallGet info) = (h, fst (Get js h now st info))"
| "step js (h, st) (now, CallHas info) = (h, fst (Has js h now st info))"
| "step js (h, st) (now, CallDelete info) = (h, fst (Delete js h st info))"
| "step js (h, st) (now, CallClear) = (h, fst (Clear st))"
| "step js (h, st) (now, CallSize) = (h, fst (Size st))"
| "step js (h, st) (now, CallKeys) = (h, fst (Keys now st))"
| "step js (h, st) (now, CallGetKeys between) = (h, fst (GetKeys now between st))"
| "step js (h, st) (now, CallAll between) = (h, fst (All now between st))"
| "step js (h, st) (now, CallStartCleanupTask info) = (h, fst (StartCleanupTask st info))"
| "step js (h, st) (now, CallStopCleanupTask) = (h, fst (StopCleanupTask st))"
| "step js (h, st) (now, CallCreateMutableKey info) =
     (fst (CreateMutableKey h now st info), fst (snd (CreateMutableKey h now st info)))"
| "step js (h, st) (now, WorkerSweep) = (h, CleanupExpiredItems now st)"
| "step js (h, st) (now, JsNewObject ps) = (h @ [Plain ps], st)"
| "step js (h, st) (now, JsAssign obj prop v) = (Object_Set h obj prop v, st)"
| "step js (h, st) (now, JsCode h') = (h', st)"

fun run :: "stringify \<Rightarrow> heap \<times> MemoryStore \<Rightarrow> (time_point \<times> event) list \<Rightarrow> heap \<times> MemoryStore" where
  "run js s [] = s"
| "run js s (e # es) = run js (step js s e) es"

section \<open>A small store\<close>

text \<open>
  A host whose \<^verbatim>\<open>JSON.stringify\<close> always throws. The caller makes an options object
  \<^verbatim>\<open>{isPermanent: false, maxAgeMs: 30}\<close> and two value objects, creates the mutable
  keys \<^verbatim>\<open>user:1\<close> and \<^verbatim>\<open>session:1\<close> at ticks 1 and 2 (the proxies at addresses 4 and 6),
  and at tick 3 stores the first value under the first key and the second, with the
  options, under the second.
\<close>

definition no_stringify :: stringify where
  "no_stringify h v = None"

definition demo_events :: "(time_point \<times> event) list" where
  "demo_events =
     [(0, JsNewObject [(''isPermanent'', Data (JBoolean False)),
                       (''maxAgeMs'', Data (JNumber (Finite 30)))]),
      (0, JsNewObject [(''role'', Data (JString ''admin''))]),
      (0, JsNewObject [(''t'', Data (JString ''x''))]),
      (1, CallCreateMutableKey [JString ''user:1'']),
      (2, CallCreateMutableKey [JString ''session:1'']),
      (3, CallSet [JObject 4, JObject 1]),
      (3, CallSet [JObject 6, JObject 2, JObject 0])]"

definition demo_heap :: heap where
  "demo_heap = fst (run no_stringify ([], MemoryStore_new [] []) demo_events)"

definition demo_store :: MemoryStore where
  "demo_store = snd (run no_stringify ([], MemoryStore_new [] []) demo_events)"

definition demo_session :: StoreItem where
  "demo_session = \<lparr> itemValue = Some (JObject 2), keyRef = Some (JObject 6),
      isPermanent = False, expiresAt = 30000003, maxAgeMs = 30 \<rparr>"

section \<open>The deadline invariant\<close>

text \<open>
  A clock reading is \<open>steady\<close> when a deadline \<open>2 ^ 32 - 1\<close> milliseconds later is still
  below \<^verbatim>\<open>time_point::max()\<close>. An item's deadline is in order, relative to a set of
  (clock reading, arguments) pairs of \<^verbatim>\<open>set\<close> calls, when it is "never" for a permanent
  or ageless item and otherwise is the reading of the call that stored the item plus the
  item's age limit.
\<close>

definition steady :: "time_point \<Rightarrow> bool" where
  "steady now = (now + milliseconds 4294967295 < time_point_max)"

definition deadline_ok :: "(time_point \<times> jsvalue list) set \<Rightarrow> StoreItem \<Rightarrow> bool" where
  "deadline_ok T it =
     (uint (maxAgeMs it) < 2 ^ 32 \<and>
      (if isPermanent it \<or> maxAgeMs it = 0 then expiresAt it = time_point_max
       else expiresAt it \<noteq> time_point_max
            \<and> (\<exists>c\<in>T. 2 \<le> length (snd c) \<and> keyRef it = Reference_New (snd c ! 0)
                  \<and> itemValue it = Reference_New (snd c ! 1)
                  \<and> expiresAt it = fst c + milliseconds (maxAgeMs it))))"

definition store_ok :: "(time_point \<times> jsvalue list) set \<Rightarrow> MemoryStore \<Rightarrow> bool" where
  "store_ok T st = (\<forall>p \<in> set (store st). deadline_ok T (snd p))"

definition set_times :: "(time_point \<times> event) list \<Rightarrow> (time_point \<times> jsvalue list) set" where
  "set_times evs = {c. (fst c, CallSet (snd c)) \<in> set evs}"

section \<open>The item of a set, handles, and more small stores\<close>

text \<open>The item that \<^verbatim>\<open>Set\<close> builds (lines 297-309), by its fields.\<close>

definition Set_item :: "heap \<Rightarrow> time_point \<Rightarrow> jsvalue list \<Rightarrow> StoreItem" where
  "Set_item h now info =
     \<lparr> itemValue = Reference_New (info ! 1), keyRef = Reference_New (info ! 0),
       isPermanent = fst (Set_isPermanent h info),
       expiresAt = Set_expiresAt now (fst (Set_isPermanent h info)) (fst (Set_maxAgeMs h info)),
       maxAgeMs = fst (Set_maxAgeMs h info) \<rparr>"


text \<open>A new store whose sweeper has been started with no argument.\<close>

definition running_store :: MemoryStore where
  "running_store = fst (StartCleanupTask (MemoryStore_new [] []) [])"

text \<open>Two handles created one after the other while the clock reads tick 5.\<close>

definition two_keys :: "heap \<times> MemoryStore \<times> (error + jsvalue)" where
  "two_keys =
     (let first = CreateMutableKey [] 5 (MemoryStore_new [] []) [JString ''a'']
      in CreateMutableKey (fst first) 5 (fst (snd first)) [JString ''b''])"

text \<open>
  A heap with an object that refers to itself (\<^verbatim>\<open>JSON.stringify\<close> throws on it) and a
  value object.
\<close>

definition circular_heap :: heap where
  "circular_heap = [Plain [(''self'', Data (JObject 0))], Plain [(''role'', Data (JString ''admin''))]]"

text \<open>
  A heap with the options \<^verbatim>\<open>{isPermanent: false, maxAgeMs: 4294967296}\<close>, a key object
  that names itself \<^verbatim>\<open>k\<close>, and a value object.
\<close>

definition wrap_heap :: heap where
  "wrap_heap =
     [Plain [(''isPermanent'', Data (JBoolean False)),
             (''maxAgeMs'', Data (JNumber (Finite 4294967296)))],
      Plain [(''__keyId'', Data (JString ''k''))],
      Plain [(''t'', Data (JString ''x''))]]"

text \<open>
  The store after \<^verbatim>\<open>set(handle, "admin")\<close> on a new store, with the first handle of the
  small store's heap.
\<close>

definition primitive_store :: MemoryStore where
  "primitive_store =
     fst (Set no_stringify demo_heap 3 (MemoryStore_new [] []) [JObject 4, JString ''admin''])"

section \<open>Properties\<close>

subsection \<open>The small store, evaluated\<close>

lemma Persistent_fst: "fst (Persistent pend v) = Reference_New v"
  by (simp add: Persistent_def Reference_New_def)

lemma map_of_update_same: "map_of (AList.update k v al) k = Some v"
  by (simp add: update_conv')

lemma uniqueId_1: "uniqueId 1 = ''key_1''"
  by code_simp

lemma uniqueId_2: "uniqueId 2 = ''key_2''"
  by code_simp

lemma demo_heap_eq:
  "demo_heap =
     [Plain [(''isPermanent'', Data (JBoolean False)), (''maxAgeMs'', Data (JNumber (Finite 30)))],
      Plain [(''role'', Data (JString ''admin''))],
      Plain [(''t'', Data (JString ''x''))],
      Plain [(''value'', Data (JString ''user:1'')), (''__keyId'', Data (JString ''key_1''))],
      Proxy 3,
      Plain [(''value'', Data (JString ''session:1'')), (''__keyId'', Data (JString ''key_2''))],
      Proxy 5]"
  by (simp add: demo_heap_def demo_events_def CreateMutableKey_def Let_def uniqueId_1 uniqueId_2)

lemmas access_defs = Has_and_Is_def Object_Has_def Object_Get_def js_Has_def js_Get_def
  heap_lookup_def target_Has_def target_Get_def plain_Has_def plain_Get_def getFunction_def

lemmas call_defs = Set_def Get_def Has_def Delete_def Set_keyString_def Get_keyString_def
  SafeGetString_def Set_isPermanent_def Set_maxAgeMs_def Set_expiresAt_def Persistent_def
  callback_return_def to_js_def expired_def Let_def

lemma demo_run:
  "run no_stringify ([], MemoryStore_new [] []) demo_events = (demo_heap, demo_store)"
  by (simp add: demo_heap_def demo_store_def)

lemma demo_store_eq:
  "demo_store =
     \<lparr> store = [(''user:1'', \<lparr> itemValue = Some (JObject 1), keyRef = Some (JObject 4),
                    isPermanent = True, expiresAt = time_point_max, maxAgeMs = 0 \<rparr>),
                 (''session:1'', demo_session)],
       keyWrappers = [(''key_1'', \<lparr> keyString = ''key_1'', proxyRef = Some (JObject 4) \<rparr>),
                      (''key_2'', \<lparr> keyString = ''key_2'', proxyRef = Some (JObject 6) \<rparr>)],
       stopCleanup = True, cleanupIntervalMs = 60000, cleanupThread = False \<rparr>"
  by (simp add: demo_store_def demo_events_def demo_session_def CreateMutableKey_def
      MemoryStore_new_def uniqueId_1 uniqueId_2 call_defs access_defs truncate_towards_zero_def
      milliseconds_def wrap_time_point_def time_point_max_def)

subsection \<open>Deadlines\<close>

lemma uint_age: "uint (ucast (w :: 32 word) :: 64 word) < 2 ^ 32"
  using uint_bounded [of w] by (simp add: uint_up_ucast is_up)

lemma Set_maxAgeMs_bound: "uint (fst (Set_maxAgeMs h info)) < 2 ^ 32"
proof -
  have "uint (ucast (Uint32Value v) :: 64 word) < 4294967296" for v
    using uint_age [of "Uint32Value v"] by simp
  then show ?thesis
    by (simp add: Set_maxAgeMs_def Let_def split_def)
qed

lemma steady_deadline:
  "steady now \<Longrightarrow> uint age < 2 ^ 32 \<Longrightarrow> now + milliseconds age < time_point_max"
  by (simp add: steady_def milliseconds_def)

lemma deadline_ok_mono: "deadline_ok T it \<Longrightarrow> T \<subseteq> T' \<Longrightarrow> deadline_ok T' it"
  by (auto simp: deadline_ok_def split: if_splits)

lemma store_ok_mono: "store_ok T st \<Longrightarrow> T \<subseteq> T' \<Longrightarrow> store_ok T' st"
  by (auto simp: store_ok_def intro: deadline_ok_mono)

lemma set_update_subset: "set (AList.update k v al) \<subseteq> insert (k, v) (set al)"
  by (induction al) auto

lemma set_delete_subset: "set (AList.delete k al) \<subseteq> set al"
  by (auto simp: AList.delete_eq)

lemma set_erase_expired_subset: "set (erase_expired now al) \<subseteq> set al"
  by (induction al) auto

lemma Set_store:
  "\<not> length info < 2 \<Longrightarrow>
   store (fst (Set js h now st info))
     = AList.update (fst (Set_keyString (snd (Set_maxAgeMs h info)) js h st (info ! 0)))
         (Set_item h now info) (store st)"
  by (simp add: Set_def Let_def split_def Set_item_def Persistent_fst)

lemma new_item_ok:
  assumes "steady now" "2 \<le> length info"
  shows "deadline_ok {(now, info)} (Set_item h now info)"
proof -
  have b: "uint (fst (Set_maxAgeMs h info)) < 2 ^ 32"
    by (rule Set_maxAgeMs_bound)
  with assms(1) have "now + milliseconds (fst (Set_maxAgeMs h info)) < time_point_max"
    by (rule steady_deadline)
  with b assms(2) show ?thesis
    by (auto simp: deadline_ok_def Set_item_def Set_expiresAt_def wrap_time_point_def word_gt_0)
qed

lemma Set_store_ok:
  assumes "steady now" "store_ok T st"
  shows "store_ok (insert (now, info) T) (fst (Set js h now st info))"
proof (cases "length info < 2")
  case True
  have "store_ok (insert (now, info) T) st"
    using assms(2) by (rule store_ok_mono) auto
  with True show ?thesis
    by (simp add: Set_def)
next
  case False
  have old: "store_ok (insert (now, info) T) st"
    using assms(2) by (rule store_ok_mono) auto
  have new: "deadline_ok (insert (now, info) T) (Set_item h now info)"
    using new_item_ok [OF assms(1), of info h] False by (auto intro: deadline_ok_mono)
  show ?thesis
    unfolding store_ok_def Set_store [OF False]
  proof
    fix p
    assume "p \<in> set (AList.update
        (fst (Set_keyString (snd (Set_maxAgeMs h info)) js h st (info ! 0)))
        (Set_item h now info) (store st))"
    then have "p = (fst (Set_keyString (snd (Set_maxAgeMs h info)) js h st (info ! 0)),
        Set_item h now info) \<or> p \<in> set (store st)"
      using set_update_subset by fastforce
    then show "deadline_ok (insert (now, info) T) (snd p)"
    proof
      assume "p \<in> set (store st)"
      with old show ?thesis by (simp add: store_ok_def)
    next
      assume "p = (fst (Set_keyString (snd (Set_maxAgeMs h info)) js h st (info ! 0)),
        Set_item h now info)"
      with new show ?thesis by simp
    qed
  qed
qed

lemma store_ok_subset:
  "store_ok T st \<Longrightarrow> set (store st') \<subseteq> set (store st) \<Longrightarrow> store_ok T st'"
  by (auto simp: store_ok_def)

lemma Get_store_ok: "store_ok T st \<Longrightarrow> store_ok T (fst (Get js h now st info))"
  by (rule store_ok_subset)
     (auto simp: Get_def Let_def split_def split: option.splits
       dest: set_delete_subset [THEN subsetD])

lemma Has_store_ok: "store_ok T st \<Longrightarrow> store_ok T (fst (Has js h now st info))"
  by (rule store_ok_subset)
     (auto simp: Has_def Let_def split_def split: option.splits
       dest: set_delete_subset [THEN subsetD])

lemma Delete_store_ok: "store_ok T st \<Longrightarrow> store_ok T (fst (Delete js h st info))"
  by (rule store_ok_subset)
     (auto simp: Delete_def Let_def split_def split: option.splits
       dest: set_delete_subset [THEN subsetD])

lemma between_passes_subset: "set (store (between_passes between st)) \<subseteq> set (store st)"
  using set_erase_expired_subset
  by (auto simp: between_passes_def CleanupExpiredItems_def split: option.splits)

lemma GetKeys_store: "fst (GetKeys now between st) = between_passes between st"
  by (simp add: GetKeys_def Let_def split_def)

lemma All_store: "fst (All now between st) = between_passes between st"
  by (simp add: All_def Let_def split_def)

lemma other_store_ok:
  "store_ok T st \<Longrightarrow> store_ok T (fst (Clear st))"
  "store_ok T st \<Longrightarrow> store_ok T (fst (Size st))"
  "store_ok T st \<Longrightarrow> store_ok T (fst (Keys now st))"
  "store_ok T st \<Longrightarrow> store_ok T (fst (StartCleanupTask st info))"
  "store_ok T st \<Longrightarrow> store_ok T (fst (StopCleanupTask st))"
  "store_ok T st \<Longrightarrow> store_ok T (fst (snd (CreateMutableKey h now st info)))"
  "store_ok T st \<Longrightarrow> store_ok T (CleanupExpiredItems now st)"
  using set_erase_expired_subset
  by (auto simp: store_ok_def Clear_def Size_def Keys_def Let_def
      StartCleanupTask_def StopCleanupTask_def CreateMutableKey_def CleanupExpiredItems_def)

lemma enumeration_store_ok:
  "store_ok T st \<Longrightarrow> store_ok T (fst (GetKeys now between st))"
  "store_ok T st \<Longrightarrow> store_ok T (fst (All now between st))"
  by (rule store_ok_subset, assumption, simp add: GetKeys_store All_store between_passes_subset)+

lemma set_times_CallSet: "set_times [(now, CallSet info)] = {(now, info)}"
  by (auto simp: set_times_def)

lemma step_store_ok:
  assumes "steady now" "store_ok T st"
  shows "store_ok (T \<union> set_times [(now, ev)]) (snd (step js (h, st) (now, ev)))"
proof (cases ev)
  case (CallSet info)
  then show ?thesis
    using Set_store_ok [OF assms, where js = js and h = h and info = info]
    by (simp add: set_times_CallSet)
qed (use assms in \<open>simp_all add: set_times_def Get_store_ok Has_store_ok Delete_store_ok other_store_ok
    enumeration_store_ok\<close>)

lemma set_times_Cons: "set_times (e # es) = set_times [e] \<union> set_times es"
  by (auto simp: set_times_def)

lemma run_store_ok:
  "list_all (\<lambda>e. steady (fst e)) evs \<Longrightarrow> store_ok T (snd s) \<Longrightarrow>
   store_ok (T \<union> set_times evs) (snd (run js s evs))"
proof (induction evs arbitrary: s T)
  case Nil
  then show ?case by (simp add: set_times_def)
next
  case (Cons e es)
  obtain now ev where e: "e = (now, ev)" by (cases e)
  obtain h st where s: "s = (h, st)" by (cases s)
  from Cons.prems have "steady now" "store_ok T st" by (simp_all add: e s)
  then have "store_ok (T \<union> set_times [e]) (snd (step js s e))"
    unfolding e s by (rule step_store_ok)
  moreover from Cons.prems have "list_all (\<lambda>e. steady (fst e)) es" by simp
  ultimately have "store_ok (T \<union> set_times [e] \<union> set_times es) (snd (run js (step js s e) es))"
    by (rule Cons.IH [rotated])
  then show ?case
    by (simp add: set_times_Cons [of e es] Un_assoc)
qed

text \<open>
  C3. After any sequence of events on a new store, at steady clock readings, every entry
  of the table has the "never" deadline if and only if it is permanent or its age limit
  is 0; and an entry that is neither was stored by a \<^verbatim>\<open>set\<close> call of the sequence, with
  that call's key and value, and its deadline is that call's clock reading plus its age
  limit in milliseconds.
\<close>

theorem expiresAt_never_iff_permanent:
  assumes "list_all (\<lambda>e. steady (fst e)) evs"
    and "(k, it) \<in> set (store (snd (run js (h0, MemoryStore_new h0 info0) evs)))"
  shows "(expiresAt it = time_point_max) = (isPermanent it \<or> maxAgeMs it = 0)
    \<and> (isPermanent it \<or> maxAgeMs it = 0
        \<or> (\<exists>now info. (now, CallSet info) \<in> set evs \<and> 2 \<le> length info
              \<and> keyRef it = Reference_New (info ! 0) \<and> itemValue it = Reference_New (info ! 1)
              \<and> expiresAt it = now + milliseconds (maxAgeMs it)))"
proof -
  have "store_ok {} (snd (h0, MemoryStore_new h0 info0))"
    by (simp add: store_ok_def MemoryStore_new_def)
  with assms(1) have "store_ok ({} \<union> set_times evs) (snd (run js (h0, MemoryStore_new h0 info0) evs))"
    by (rule run_store_ok)
  with assms(2) have "deadline_ok (set_times evs) it"
    by (auto simp: store_ok_def)
  then show ?thesis
    by (auto simp: deadline_ok_def set_times_def split: if_splits)
qed

theorem expiresAt_never_iff_permanent_witness:
  "list_all (\<lambda>e. steady (fst e)) demo_events
   \<and> (''session:1'', demo_session)
        \<in> set (store (snd (run no_stringify ([], MemoryStore_new [] []) demo_events)))
   \<and> expiresAt demo_session \<noteq> time_point_max
   \<and> \<not> isPermanent demo_session \<and> maxAgeMs demo_session \<noteq> 0
   \<and> (\<exists>now info. (now, CallSet info) \<in> set demo_events
         \<and> expiresAt demo_session = now + milliseconds (maxAgeMs demo_session))"
proof -
  have a: "list_all (\<lambda>e. steady (fst e)) demo_events"
    by (simp add: demo_events_def steady_def milliseconds_def time_point_max_def)
  have b: "(''session:1'', demo_session)
        \<in> set (store (snd (run no_stringify ([], MemoryStore_new [] []) demo_events)))"
    by (simp add: demo_run demo_store_eq)
  show ?thesis
    using a b expiresAt_never_iff_permanent [OF a b]
    by (auto simp: demo_session_def)
qed

subsection \<open>Size\<close>

text \<open>
  The keys of the table stay distinct in every run, so the association list is a faithful
  picture of the \<^verbatim>\<open>unordered_map\<close>: its length is the number of keys.
\<close>

lemma distinct_erase_expired:
  "distinct (map fst al) \<Longrightarrow> distinct (map fst (erase_expired now al))"
proof (induction al)
  case Nil
  then show ?case by simp
next
  case (Cons p al)
  then show ?case
    using set_erase_expired_subset [of now al] by (auto simp: image_iff)
qed

lemma distinct_between_passes:
  "distinct (map fst (store st)) \<Longrightarrow> distinct (map fst (store (between_passes between st)))"
  by (simp add: between_passes_def CleanupExpiredItems_def distinct_erase_expired
      split: option.split)

lemma step_distinct:
  assumes "distinct (map fst (store st))"
  shows "distinct (map fst (store (snd (step js (h, st) (now, ev)))))"
proof (cases ev)
  case (CallSet info)
  with assms show ?thesis
    by (cases "length info < 2") (simp_all add: Set_store distinct_update, simp add: Set_def)
next
  case (CallGet info)
  with assms show ?thesis
    by (simp add: Get_def Let_def split_def distinct_delete split: option.split)
next
  case (CallHas info)
  with assms show ?thesis
    by (simp add: Has_def Let_def split_def distinct_delete split: option.split)
next
  case (CallDelete info)
  with assms show ?thesis
    by (simp add: Delete_def Let_def split_def distinct_delete split: option.split)
next
  case WorkerSweep
  with assms show ?thesis
    by (simp add: CleanupExpiredItems_def distinct_erase_expired)
qed (use assms in \<open>simp_all add: Clear_def Size_def Keys_def GetKeys_store All_store Let_def
      distinct_between_passes StartCleanupTask_def StopCleanupTask_def CreateMutableKey_def\<close>)

lemma run_distinct:
  "distinct (map fst (store (snd s))) \<Longrightarrow> distinct (map fst (store (snd (run js s evs))))"
proof (induction evs arbitrary: s)
  case Nil
  then show ?case by simp
next
  case (Cons e es)
  obtain now ev where e: "e = (now, ev)" by (cases e)
  obtain h st where s: "s = (h, st)" by (cases s)
  from Cons.prems have "distinct (map fst (store (snd (step js s e))))"
    unfolding e s by (simp add: step_distinct)
  then show ?case
    by (simp add: Cons.IH)
qed

lemma reachable_distinct:
  "distinct (map fst (store (snd (run js (h0, MemoryStore_new h0 info0) evs))))"
  by (rule run_distinct) (simp add: MemoryStore_new_def)

text \<open>
  C5. \<^verbatim>\<open>size()\<close> returns the number of entries in the table (a table of fewer than
  \<open>2 ^ 32\<close> entries, since the result is cast to 32 bits), expired entries that have not
  been evicted included, and leaves the store as it was.
\<close>

theorem size_counts_raw_entries:
  "length (store st) < 2 ^ 32 \<Longrightarrow>
   Size st = (st, JNumber (Finite (of_nat (length (store st)))))
   \<and> length (store st)
       = length (filter (\<lambda>p. expired now (snd p)) (store st))
         + length (filter (\<lambda>p. \<not> expired now (snd p)) (store st))"
  by (simp add: Size_def uint_nat unat_of_nat sum_length_filter_compl)

theorem size_counts_raw_entries_witness:
  "length (store demo_store) < 2 ^ 32
   \<and> Size demo_store = (demo_store, JNumber (Finite 2))
   \<and> length (filter (\<lambda>p. expired 40000000 (snd p)) (store demo_store)) = 1"
  using size_counts_raw_entries [of demo_store 40000000]
  by (simp add: demo_store_eq demo_session_def expired_def)

subsection \<open>Calls that return\<close>

text \<open>An exception, once pending, stays pending to the end of the call.\<close>

lemma Object_Has_pending: "snd (Object_Has pend h obj prop) = None \<Longrightarrow> pend = None"
  by (simp add: Object_Has_def split: option.splits)

lemma Object_Get_pending: "snd (Object_Get pend h obj prop) = None \<Longrightarrow> pend = None"
  by (simp add: Object_Get_def split: option.splits)

lemma Has_and_Is_pending: "snd (Has_and_Is IsT pend h obj prop) = None \<Longrightarrow> pend = None"
  by (auto simp: Has_and_Is_def Let_def split_def
      dest: Object_Has_pending Object_Get_pending split: if_splits)

lemma SafeGetString_pending: "snd (SafeGetString pend js h v) = None \<Longrightarrow> pend = None"
  by (auto simp: SafeGetString_def Let_def split_def
      dest: Has_and_Is_pending Object_Get_pending split: if_splits option.splits)

lemma Set_keyString_pending: "snd (Set_keyString pend js h st k) = None \<Longrightarrow> pend = None"
  by (auto simp: Set_keyString_def Let_def split_def
      dest: Has_and_Is_pending Object_Get_pending SafeGetString_pending split: if_splits)

lemma Persistent_pending:
  "snd (Persistent pend v) = None \<Longrightarrow> pend = None \<and> referenceable v"
  by (simp add: Persistent_def split: if_splits option.splits)

lemma Set_keyString_eq: "Set_keyString None js h st k = Get_keyString js h k"
  by (simp add: Set_keyString_def Get_keyString_def Let_def split_def split: option.split)

text \<open>
  When \<^verbatim>\<open>Set\<close> returns, nothing was pending on the way: the key and the value could be
  referenced, and the key was resolved as \<^verbatim>\<open>Get\<close> resolves it.
\<close>

lemma Set_returns:
  assumes "snd (Set js h now st info) = Inr r"
  shows "2 \<le> length info \<and> r = JBoolean True
    \<and> referenceable (info ! 0) \<and> referenceable (info ! 1)
    \<and> snd (Set_maxAgeMs h info) = None
    \<and> Set_keyString (snd (Set_maxAgeMs h info)) js h st (info ! 0) = Get_keyString js h (info ! 0)
    \<and> snd (Get_keyString js h (info ! 0)) = None"
proof -
  from assms have len: "\<not> length info < 2"
    by (auto simp: Set_def)
  let ?p2 = "snd (Set_maxAgeMs h info)"
  let ?p3 = "snd (Set_keyString ?p2 js h st (info ! 0))"
  let ?p4 = "snd (Persistent ?p3 (info ! 1))"
  let ?p5 = "snd (Persistent ?p4 (info ! 0))"
  from assms len have ret: "callback_return ?p5 (JBoolean True) = Inr r"
    by (simp add: Set_def Let_def split_def)
  then have p5: "?p5 = None" and r: "r = JBoolean True"
    by (auto simp: callback_return_def split: option.splits)
  from p5 have p4: "?p4 = None" and k: "referenceable (info ! 0)"
    by (auto dest: Persistent_pending)
  from p4 have p3: "?p3 = None" and v: "referenceable (info ! 1)"
    by (auto dest: Persistent_pending)
  from p3 have p2: "?p2 = None"
    by (rule Set_keyString_pending)
  have eq: "Set_keyString ?p2 js h st (info ! 0) = Get_keyString js h (info ! 0)"
    by (simp add: p2 Set_keyString_eq)
  with p3 have "snd (Get_keyString js h (info ! 0)) = None"
    by simp
  with len r k v p2 eq show ?thesis
    by simp
qed

lemma Set_Get_roundtrip:
  assumes "snd (Set js h now st info) = Inr r" and "fst (Set_isPermanent h info)"
  shows "Get js h now' (fst (Set js h now st info)) [info ! 0]
           = (fst (Set js h now st info), Inr (info ! 1))"
proof -
  note f = Set_returns [OF assms(1)]
  from f have len: "\<not> length info < 2" by simp
  obtain k where k: "Get_keyString js h (info ! 0) = (k, None)"
    using f by (cases "Get_keyString js h (info ! 0)") simp
  from f k have sk: "Set_keyString (snd (Set_maxAgeMs h info)) js h st (info ! 0) = (k, None)"
    by (simp add: Set_keyString_eq)
  have st: "store (fst (Set js h now st info)) = AList.update k (Set_item h now info) (store st)"
    by (simp add: Set_store [OF len] sk)
  have it: "\<not> expired now' (Set_item h now info)"
    "itemValue (Set_item h now info) = Some (info ! 1)"
    using assms(2) f by (simp_all add: expired_def Set_item_def Reference_New_def)
  show ?thesis
    by (simp add: Get_def k st map_of_update_same it callback_return_def to_js_def)
qed

subsection \<open>Round trip\<close>

text \<open>
  C1. The code at \<^verbatim>\<open>set("user:1", "admin")\<close> on a new store, whatever the heap, the
  clock and the host's \<^verbatim>\<open>JSON.stringify\<close>: neither string can be referenced, so the
  entry is inserted with two empty references and the call throws
  \<^verbatim>\<open>Invalid argument\<close>; \<^verbatim>\<open>get("user:1")\<close> then returns \<^verbatim>\<open>undefined\<close>, not the value.
\<close>

theorem set_string_key_throws:
  "Set js h now (MemoryStore_new [] []) [JString ''user:1'', JString ''admin'']
     = (\<lparr> store = [(''user:1'', \<lparr> itemValue = None, keyRef = None, isPermanent = True,
                                  expiresAt = time_point_max, maxAgeMs = 0 \<rparr>)],
          keyWrappers = [], stopCleanup = True, cleanupIntervalMs = 60000,
          cleanupThread = False \<rparr>,
        Inl InvalidArgument)
   \<and> snd (Get js h now'
        (fst (Set js h now (MemoryStore_new [] []) [JString ''user:1'', JString ''admin'']))
        [JString ''user:1'']) = Inr JUndefined"
  by (simp add: call_defs MemoryStore_new_def)

subsection \<open>The keys null and undefined\<close>

text \<open>
  C10. \<^verbatim>\<open>null\<close> and \<^verbatim>\<open>undefined\<close> both resolve to the empty string, so they name one
  slot: what \<^verbatim>\<open>set\<close> stored under one is what \<^verbatim>\<open>get\<close> of the other returns (the value
  when it could be referenced, \<^verbatim>\<open>undefined\<close> otherwise). But neither key can be
  referenced: \<^verbatim>\<open>set(null, v)\<close> and \<^verbatim>\<open>set(undefined, v)\<close> insert the entry and throw
  \<^verbatim>\<open>Invalid argument\<close>, for every \<open>v\<close>; they do not return \<^verbatim>\<open>true\<close>.
\<close>

theorem null_undefined_alias:
  "fst (Get_keyString js h JNull) = [] \<and> fst (Get_keyString js h JUndefined) = []
   \<and> snd (Set js h now st [JNull, v]) = Inl InvalidArgument
   \<and> snd (Set js h now st [JUndefined, v]) = Inl InvalidArgument
   \<and> map_of (store (fst (Set js h now st [JNull, v]))) []
       = Some \<lparr> itemValue = Reference_New v, keyRef = None, isPermanent = True,
                expiresAt = time_point_max, maxAgeMs = 0 \<rparr>
   \<and> snd (Get js h now' (fst (Set js h now st [JNull, v])) [JUndefined])
       = Inr (to_js (Reference_New v))
   \<and> snd (Get js h now' (fst (Set js h now st [JUndefined, v])) [JNull])
       = Inr (to_js (Reference_New v))"
  by (simp add: call_defs map_of_update_same Reference_New_def)

subsection \<open>A key that cannot be encoded\<close>

text \<open>
  C8. The code at a key that cannot be encoded, an object with no \<^verbatim>\<open>__keyId\<close> on which
  \<^verbatim>\<open>JSON.stringify\<close> throws: the resolver returns the placeholder with the exception
  still pending, so \<^verbatim>\<open>set\<close> inserts the entry under \<^verbatim>\<open>[object Object]\<close> and throws, and
  \<^verbatim>\<open>get\<close>, \<^verbatim>\<open>has\<close> and \<^verbatim>\<open>delete\<close> throw too.
\<close>

theorem unencodable_key_throws:
  "no_stringify circular_heap (JObject 0) = None
   \<and> Get_keyString no_stringify circular_heap (JObject 0) = (''[object Object]'', Some JsException)
   \<and> snd (Set no_stringify circular_heap 0 (MemoryStore_new [] []) [JObject 0, JObject 1])
       = Inl JsException
   \<and> map_of (store (fst (Set no_stringify circular_heap 0 (MemoryStore_new [] [])
                             [JObject 0, JObject 1]))) ''[object Object]''
       = Some \<lparr> itemValue = Some (JObject 1), keyRef = Some (JObject 0), isPermanent = True,
                expiresAt = time_point_max, maxAgeMs = 0 \<rparr>
   \<and> snd (Get no_stringify circular_heap 0 (MemoryStore_new [] []) [JObject 0]) = Inl JsException
   \<and> snd (Has no_stringify circular_heap 0 (MemoryStore_new [] []) [JObject 0]) = Inl JsException
   \<and> snd (Delete no_stringify circular_heap (MemoryStore_new [] []) [JObject 0]) = Inl JsException"
  by (simp add: call_defs access_defs MemoryStore_new_def circular_heap_def no_stringify_def)

subsection \<open>Starting a running sweeper\<close>

text \<open>
  \<^verbatim>\<open>StartCleanupTask\<close> on a running sweeper returns false and leaves the table, the key
  wrappers, the flag and the worker as they were; the interval is kept only when no
  number is passed.
\<close>

lemma StartCleanupTask_running:
  "\<not> stopCleanup st \<Longrightarrow>
   snd (StartCleanupTask st info) = JBoolean False
   \<and> store (fst (StartCleanupTask st info)) = store st
   \<and> keyWrappers (fst (StartCleanupTask st info)) = keyWrappers st
   \<and> stopCleanup (fst (StartCleanupTask st info)) = stopCleanup st
   \<and> cleanupThread (fst (StartCleanupTask st info)) = cleanupThread st
   \<and> cleanupIntervalMs (fst (StartCleanupTask st info))
       = (if length info > 0 \<and> IsNumber (info ! 0) then ucast (Uint32Value (info ! 0))
          else cleanupIntervalMs st)"
  by (simp add: StartCleanupTask_def Let_def)

text \<open>
  C7. The code at a running sweeper with interval 60000:
  \<^verbatim>\<open>startCleanupTask(1000)\<close> returns false and has changed the interval to 1000.
\<close>

theorem start_while_running_changes_interval:
  "\<not> stopCleanup running_store
   \<and> cleanupIntervalMs running_store = 60000
   \<and> snd (StartCleanupTask running_store [JNumber (Finite 1000)]) = JBoolean False
   \<and> cleanupIntervalMs (fst (StartCleanupTask running_store [JNumber (Finite 1000)])) = 1000
   \<and> fst (StartCleanupTask running_store [JNumber (Finite 1000)]) \<noteq> running_store"
proof -
  have r: "running_store = \<lparr> store = [], keyWrappers = [], stopCleanup = False,
      cleanupIntervalMs = 60000, cleanupThread = True \<rparr>"
    by (simp add: running_store_def StartCleanupTask_def MemoryStore_new_def Let_def)
  have i: "cleanupIntervalMs (fst (StartCleanupTask running_store [JNumber (Finite 1000)])) = 1000"
    by (simp add: r StartCleanupTask_def Let_def truncate_towards_zero_def)
  have "cleanupIntervalMs (fst (StartCleanupTask running_store [JNumber (Finite 1000)]))
      \<noteq> cleanupIntervalMs running_store"
    unfolding i by (simp add: r)
  then have "fst (StartCleanupTask running_store [JNumber (Finite 1000)]) \<noteq> running_store"
    by auto
  then show ?thesis
    using i by (simp add: r StartCleanupTask_def Let_def)
qed

subsection \<open>Handle ids\<close>

text \<open>
  Printing the tick count is injective, so two creations get the same id exactly when the
  clock gave them the same reading.
\<close>

lemma digit_char_code: "d < 10 \<Longrightarrow> of_char (digit_char d) = 48 + d"
  by (simp add: digit_char_def)

lemma digit_char_inj:
  assumes "a < 10" "b < 10" "digit_char a = digit_char b"
  shows "a = b"
proof -
  have "(of_char (digit_char a) :: nat) = of_char (digit_char b)"
    using assms(3) by (rule arg_cong)
  then have "48 + a = 48 + b"
    by (simp only: digit_char_code [OF assms(1)] digit_char_code [OF assms(2)])
  then show ?thesis
    by (simp only: add_left_cancel)
qed

lemma digit_char_not_minus: "d < 10 \<Longrightarrow> digit_char d \<noteq> CHR ''-''"
proof
  assume "d < 10" "digit_char d = CHR ''-''"
  then have "(of_char (CHR ''-'') :: nat) = 48 + d"
    by (simp only: digit_char_code [symmetric])
  moreover have "(of_char (CHR ''-'') :: nat) = 45"
    by simp
  ultimately show False by arith
qed

lemma nat_digits_nonempty: "nat_digits n \<noteq> []"
  by (subst nat_digits.simps) simp

lemma nat_digits_last: "last (nat_digits n) = digit_char (n mod 10)"
  by (subst nat_digits.simps) simp

lemma nat_digits_butlast:
  "butlast (nat_digits n) = (if n < 10 then [] else nat_digits (n div 10))"
  by (subst nat_digits.simps) (simp add: butlast_append)

lemma nat_digits_inj: "nat_digits n = nat_digits m \<Longrightarrow> n = m"
proof (induction n arbitrary: m rule: nat_digits.induct)
  case (1 n)
  from "1.prems" have "last (nat_digits n) = last (nat_digits m)" by simp
  then have "digit_char (n mod 10) = digit_char (m mod 10)"
    by (simp add: nat_digits_last)
  then have md: "n mod 10 = m mod 10"
    by (intro digit_char_inj) simp_all
  from "1.prems" have bl: "butlast (nat_digits n) = butlast (nat_digits m)" by simp
  show ?case
  proof (cases "n < 10")
    case True
    with bl have "m < 10"
      using nat_digits_nonempty [of "m div 10"] by (auto simp: nat_digits_butlast split: if_splits)
    with True md show ?thesis by simp
  next
    case False
    with bl have m: "\<not> m < 10"
      using nat_digits_nonempty [of "n div 10"] by (auto simp: nat_digits_butlast split: if_splits)
    with False bl have "nat_digits (n div 10) = nat_digits (m div 10)"
      by (simp add: nat_digits_butlast)
    with False have "n div 10 = m div 10"
      by (rule "1.IH")
    with md show ?thesis
      by (metis div_mult_mod_eq)
  qed
qed

lemma minus_not_in_nat_digits: "CHR ''-'' \<notin> set (nat_digits n)"
proof (induction n rule: nat_digits.induct)
  case (1 n)
  show ?case
  proof (cases "n < 10")
    case True
    then show ?thesis
      using digit_char_not_minus [of n] by (subst nat_digits.simps) auto
  next
    case False
    then show ?thesis
      using "1.IH" digit_char_not_minus [of "n mod 10"]
      by (subst nat_digits.simps) auto
  qed
qed

lemma to_string_inj: "to_string a = to_string b \<Longrightarrow> a = b"
proof -
  assume eq: "to_string a = to_string b"
  have no: "\<And>k ds. CHR ''-'' # ds \<noteq> nat_digits k"
    using minus_not_in_nat_digits by (metis list.set_intros(1))
  show ?thesis
  proof (cases "a < 0"; cases "b < 0")
    assume "a < 0" "b < 0"
    with eq have "nat (- a) = nat (- b)"
      by (simp add: to_string_def nat_digits_inj)
    with \<open>a < 0\<close> \<open>b < 0\<close> show ?thesis by simp
  next
    assume "a < 0" "\<not> b < 0"
    with eq no show ?thesis by (simp add: to_string_def)
  next
    assume "\<not> a < 0" "b < 0"
    with eq no [symmetric] show ?thesis by (simp add: to_string_def)
  next
    assume "\<not> a < 0" "\<not> b < 0"
    with eq have "nat a = nat b"
      by (simp add: to_string_def nat_digits_inj)
    with \<open>\<not> a < 0\<close> \<open>\<not> b < 0\<close> show ?thesis by simp
  qed
qed

lemma uniqueId_inj: "uniqueId a = uniqueId b \<longleftrightarrow> a = b"
  by (auto simp: uniqueId_def dest: to_string_inj)

lemma created_id:
  "target_Get (fst (CreateMutableKey h now st (v # rest))) (length h) ''__keyId''
     = Some (JString (uniqueId now))"
  by (simp add: CreateMutableKey_def Let_def target_Get_def plain_Get_def heap_lookup_def)

lemma uniqueId_5: "uniqueId 5 = ''key_5''"
  by code_simp

text \<open>
  C9. The code at two creations within one clock tick: two distinct proxies (addresses 1
  and 3) whose targets carry the same id \<^verbatim>\<open>key_5\<close>, and one registry entry for both.
\<close>

theorem same_tick_same_id:
  "fst two_keys =
     [Plain [(''value'', Data (JString ''a'')), (''__keyId'', Data (JString ''key_5''))], Proxy 0,
      Plain [(''value'', Data (JString ''b'')), (''__keyId'', Data (JString ''key_5''))], Proxy 2]
   \<and> snd (snd two_keys) = Inr (JObject 3)
   \<and> snd (snd (CreateMutableKey [] 5 (MemoryStore_new [] []) [JString ''a''])) = Inr (JObject 1)
   \<and> target_Get (fst two_keys) 0 ''__keyId'' = target_Get (fst two_keys) 2 ''__keyId''
   \<and> map fst (keyWrappers (fst (snd two_keys))) = [''key_5'']"
  by (simp add: two_keys_def CreateMutableKey_def Let_def uniqueId_5 MemoryStore_new_def
      target_Get_def plain_Get_def heap_lookup_def)

subsection \<open>Expiry on read\<close>

lemma uint_maxAge:
  "0 \<le> T \<Longrightarrow> T < 2 ^ 32 \<Longrightarrow> uint (ucast (word_of_int T :: 32 word) :: 64 word) = T"
  by (simp add: uint_up_ucast is_up uint_word_of_int)

lemma truncate_of_int: "truncate_towards_zero (of_int T) = T"
  by (simp add: truncate_towards_zero_def)

lemma options_isPermanent:
  assumes "heap_lookup h a = Some (Plain ps)"
    and "map_of ps ''isPermanent'' = Some (Data (JBoolean b))"
  shows "Set_isPermanent h [k, v, JObject a] = (b, None)"
  using assms
  by (simp add: Set_isPermanent_def Has_and_Is_def Object_Has_def Object_Get_def js_Has_def
      js_Get_def plain_Has_def plain_Get_def)

lemma options_maxAgeMs:
  assumes "heap_lookup h a = Some (Plain ps)"
    and "map_of ps ''isPermanent'' = Some (Data (JBoolean b))"
    and "map_of ps ''maxAgeMs'' = Some (Data (JNumber (Finite (of_int T))))"
  shows "Set_maxAgeMs h [k, v, JObject a] = (ucast (word_of_int T :: 32 word), None)"
  using assms
  by (simp add: Set_maxAgeMs_def options_isPermanent [OF assms(1,2)] Has_and_Is_def
      Object_Has_def Object_Get_def js_Has_def js_Get_def plain_Has_def plain_Get_def
      truncate_of_int)

text \<open>
  C2, for an age limit that fits 32 bits, a steady clock reading and a \<^verbatim>\<open>set\<close> that
  returns. For \<open>0 < T < 2 ^ 32\<close>: when \<^verbatim>\<open>set(k, v, {isPermanent: false, maxAgeMs: T})\<close>
  returns, it returns \<^verbatim>\<open>true\<close>; a \<^verbatim>\<open>get(k)\<close> strictly before \<open>T\<close> milliseconds have
  passed returns \<open>v\<close> and leaves the store unchanged; and a \<^verbatim>\<open>get(k)\<close> at or after \<open>T\<close>
  milliseconds returns \<^verbatim>\<open>undefined\<close> and has removed the entry in the same call, with no
  sweep involved.
\<close>

theorem ttl_expiry:
  assumes "0 < T" and "T < 2 ^ 32" and "steady now"
    and "heap_lookup h a = Some (Plain ps)"
    and "map_of ps ''isPermanent'' = Some (Data (JBoolean False))"
    and "map_of ps ''maxAgeMs'' = Some (Data (JNumber (Finite (of_int T))))"
    and "snd (Set js h now st [k, v, JObject a]) = Inr r"
  shows "r = JBoolean True
    \<and> (now' < now + 1000000 * T \<longrightarrow>
         Get js h now' (fst (Set js h now st [k, v, JObject a])) [k]
           = (fst (Set js h now st [k, v, JObject a]), Inr v))
    \<and> (now + 1000000 * T \<le> now' \<longrightarrow>
         snd (Get js h now' (fst (Set js h now st [k, v, JObject a])) [k]) = Inr JUndefined
         \<and> map_of (store (fst (Get js h now' (fst (Set js h now st [k, v, JObject a])) [k])))
              (fst (Get_keyString js h k)) = None)"
proof -
  let ?info = "[k, v, JObject a]"
  note f = Set_returns [OF assms(7)]
  have perm: "Set_isPermanent h ?info = (False, None)"
    using assms(4,5) by (rule options_isPermanent)
  have age: "Set_maxAgeMs h ?info = (ucast (word_of_int T :: 32 word), None)"
    using assms(4,5,6) by (rule options_maxAgeMs)
  have u: "uint (ucast (word_of_int T :: 32 word) :: 64 word) = T"
    using assms(1,2) by (simp add: uint_maxAge)
  then have pos: "0 < (ucast (word_of_int T :: 32 word) :: 64 word)"
    using assms(1) by (simp add: word_less_def)
  have "uint (ucast (word_of_int T :: 32 word) :: 64 word) < 2 ^ 32"
    by (rule uint_age)
  with assms(3) have "now + milliseconds (ucast (word_of_int T :: 32 word)) < time_point_max"
    by (rule steady_deadline)
  then have dl: "Set_expiresAt now False (ucast (word_of_int T :: 32 word)) = now + 1000000 * T"
    using pos by (simp add: Set_expiresAt_def wrap_time_point_def milliseconds_def u)
  obtain key where key: "Get_keyString js h k = (key, None)"
    using f by (cases "Get_keyString js h k") simp
  have sk: "Set_keyString None js h st k = (key, None)"
    by (simp add: Set_keyString_eq key)
  have item: "Set_item h now ?info
      = \<lparr> itemValue = Some v, keyRef = Some k, isPermanent = False,
          expiresAt = now + 1000000 * T, maxAgeMs = ucast (word_of_int T :: 32 word) \<rparr>"
    using f by (simp add: Set_item_def perm age dl Reference_New_def)
  have st: "store (fst (Set js h now st ?info))
      = AList.update key (Set_item h now ?info) (store st)"
    using Set_store [of ?info js h now st] by (simp add: age sk)
  have ex: "expired now' (Set_item h now ?info) = (now + 1000000 * T \<le> now')"
    using pos by (simp add: item expired_def)
  have iv: "itemValue (Set_item h now ?info) = Some v"
    by (simp add: item)
  have early: "now' < now + 1000000 * T \<Longrightarrow>
      Get js h now' (fst (Set js h now st ?info)) [k] = (fst (Set js h now st ?info), Inr v)"
    by (simp add: Get_def key st map_of_update_same ex iv callback_return_def to_js_def)
  have late: "now + 1000000 * T \<le> now' \<Longrightarrow>
      Get js h now' (fst (Set js h now st ?info)) [k]
        = ((fst (Set js h now st ?info))
             \<lparr> store := AList.delete key (store (fst (Set js h now st ?info))) \<rparr>,
           Inr JUndefined)"
    by (simp add: Get_def key st map_of_update_same ex callback_return_def)
  have gone: "map_of (AList.delete key (store (fst (Set js h now st ?info)))) key = None"
    by (simp add: delete_conv')
  show ?thesis
    using f early late gone by (simp add: key)
qed

theorem ttl_expiry_witness:
  "(0::int) < 30 \<and> (30::int) < 2 ^ 32 \<and> steady 3
   \<and> snd (Set no_stringify demo_heap 3 (MemoryStore_new [] []) [JObject 6, JObject 2, JObject 0])
       = Inr (JBoolean True)
   \<and> snd (Get no_stringify demo_heap 30000002
        (fst (Set no_stringify demo_heap 3 (MemoryStore_new [] []) [JObject 6, JObject 2, JObject 0]))
        [JObject 6]) = Inr (JObject 2)
   \<and> snd (Get no_stringify demo_heap 30000003
        (fst (Set no_stringify demo_heap 3 (MemoryStore_new [] []) [JObject 6, JObject 2, JObject 0]))
        [JObject 6]) = Inr JUndefined"
proof -
  have l: "heap_lookup demo_heap 0
       = Some (Plain [(''isPermanent'', Data (JBoolean False)),
                      (''maxAgeMs'', Data (JNumber (Finite 30)))])"
    by (simp add: heap_lookup_def demo_heap_eq)
  have s: "steady 3"
    by (simp add: steady_def milliseconds_def time_point_max_def)
  have r: "snd (Set no_stringify demo_heap 3 (MemoryStore_new [] [])
                  [JObject 6, JObject 2, JObject 0]) = Inr (JBoolean True)"
    by (simp add: demo_heap_eq call_defs access_defs)
  have m: "map_of [(''isPermanent'', Data (JBoolean False)),
                   (''maxAgeMs'', Data (JNumber (Finite 30)))] ''maxAgeMs''
            = Some (Data (JNumber (Finite (of_int 30))))"
    by simp
  show ?thesis
    using s r
      ttl_expiry [OF _ _ s l _ m r, of 30000002]
      ttl_expiry [OF _ _ s l _ m r, of 30000003]
    by simp
qed

text \<open>
  C2 as stated, at \<open>T = 2 ^ 32\<close>, with an object key and an object value: \<^verbatim>\<open>set\<close>
  returns \<^verbatim>\<open>true\<close>, \<^verbatim>\<open>Uint32Value\<close> reads the age limit as 0, the entry never expires, and
  \<^verbatim>\<open>get\<close> still returns the value \<open>T\<close> milliseconds after the \<^verbatim>\<open>set\<close>.
\<close>

theorem ttl_wraps_counterexample:
  "snd (Set no_stringify wrap_heap 0 (MemoryStore_new [] []) [JObject 1, JObject 2, JObject 0])
     = Inr (JBoolean True)
   \<and> snd (Get no_stringify wrap_heap (1000000 * 4294967296)
        (fst (Set no_stringify wrap_heap 0 (MemoryStore_new [] [])
               [JObject 1, JObject 2, JObject 0]))
        [JObject 1])
     = Inr (JObject 2)"
  by (simp add: wrap_heap_def call_defs access_defs MemoryStore_new_def
      truncate_towards_zero_def)

subsection \<open>Rebinding a handle\<close>


















subsection \<open>Enumeration\<close>






lemma primitive_store_eq:
  "primitive_store =
     \<lparr> store = [(''user:1'', \<lparr> itemValue = None, keyRef = Some (JObject 4), isPermanent = True,
                                  expiresAt = time_point_max, maxAgeMs = 0 \<rparr>)],
       keyWrappers = [], stopCleanup = True, cleanupIntervalMs = 60000, cleanupThread = False \<rparr>"
  by (simp add: primitive_store_def demo_heap_eq MemoryStore_new_def call_defs access_defs)




text \<open>
  An entry whose value reference is empty: after \<^verbatim>\<open>set(handle, "admin")\<close>, which throws
  and inserts the entry all the same, \<^verbatim>\<open>keys()\<close> lists the entry and \<^verbatim>\<open>all()\<close> throws
  \<^verbatim>\<open>Invalid argument\<close>.
\<close>

lemma all_empty_reference_throws:
  "snd (Set no_stringify demo_heap 3 (MemoryStore_new [] []) [JObject 4, JString ''admin''])
     = Inl InvalidArgument
   \<and> map fst (store primitive_store) = [''user:1'']
   \<and> Keys 4 primitive_store = (primitive_store, [JString ''user:1''])
   \<and> All 4 None primitive_store = (primitive_store, Inl InvalidArgument)"
proof -
  have s: "snd (Set no_stringify demo_heap 3 (MemoryStore_new [] []) [JObject 4, JString ''admin''])
     = Inl InvalidArgument"
    by (simp add: demo_heap_eq MemoryStore_new_def call_defs access_defs)
  have k: "Keys 4 primitive_store = (primitive_store, [JString ''user:1''])"
    by (simp add: primitive_store_eq Keys_def valid_def Array_New_def Array_store_def)
  have a: "All 4 None primitive_store = (primitive_store, Inl InvalidArgument)"
    by (simp add: primitive_store_eq All_def between_passes_def valid_def Array_New_def
        Array_Set_def callback_return_def)
  show ?thesis
    using s k a by (simp add: primitive_store_eq)
qed

end
